theory Spec2Isabelle
  imports Main "HOL-Library.Sublist"
begin

section \<open>Python values used by \<open>main.py\<close>\<close>

subsection \<open>Strings\<close>

text \<open>
  A Python \<open>str\<close> is a sequence of Unicode code points, so it is modelled as a list of
  natural numbers; \<open>len\<close>, indexing and iteration count code points.  \<open>u\<close> turns an
  ASCII literal into such a string.  The non-ASCII characters of the source's literals are
  named constants.
\<close>

type_synonym ustr = "nat list"

definition u :: "string \<Rightarrow> ustr" where
  "u s = map of_char s"

definition nl :: ustr where "nl = [10]"
definition globe :: ustr where "globe = [0x1F30D]"
definition degree :: ustr where "degree = [0xB0]"
definition arrow :: ustr where "arrow = [0x2192]"
definition rupee :: ustr where "rupee = [0x20B9]"
definition plane :: ustr where "plane = [0x2708, 0xFE0F]"
definition cross :: ustr where "cross = [0x274C]"

text \<open>\<open>sep.join(xs)\<close> for a list of strings.\<close>

fun join :: "ustr \<Rightarrow> ustr list \<Rightarrow> ustr" where
  "join sep [] = []"
| "join sep [x] = x"
| "join sep (x # y # ys) = x @ sep @ join sep (y # ys)"

text \<open>
  \<open>text.split("\n")\<close>: the pieces between line feeds; there is always at least one
  piece, and a trailing line feed gives a last empty piece.
\<close>

fun split_nl :: "ustr \<Rightarrow> ustr list" where
  "split_nl [] = [[]]"
| "split_nl (c # cs) =
     (if c = 10 then [] # split_nl cs
      else (case split_nl cs of [] \<Rightarrow> [[c]] | l # ls \<Rightarrow> (c # l) # ls))"

text \<open>\<open>str(n)\<close> for an integer: decimal digits, with a minus sign when negative.\<close>

fun digits :: "nat \<Rightarrow> ustr" where
  "digits n = (if n < 10 then [48 + n] else digits (n div 10) @ [48 + n mod 10])"

definition str_int :: "int \<Rightarrow> ustr" where
  "str_int i = (if i < 0 then u ''-'' @ digits (nat (- i)) else digits (nat i))"

subsection \<open>Decoded JSON\<close>

text \<open>
  What \<open>Response.json()\<close> returns: \<open>None\<close>, a \<open>bool\<close>, an \<open>int\<close>, a \<open>float\<close>, a
  \<open>str\<close>, a \<open>list\<close> or a \<open>dict\<close> with string keys.  Floating-point numbers are not
  modelled: the code never computes with them, it only formats them, so they are values of
  an arbitrary type \<open>'f\<close>.  A dict is the list of its items in insertion order; its keys
  are distinct, and a lookup takes the first item with the key.
\<close>

datatype 'f json =
    JNull
  | JBool bool
  | JInt int
  | JFloat 'f
  | JStr ustr
  | JArr "'f json list"
  | JObj "(ustr \<times> 'f json) list"

subsection \<open>Exceptions\<close>

text \<open>
  Every exception that can arise inside the two \<open>try\<close> blocks is an instance of
  \<open>Exception\<close>: the built-in errors of subscripting, \<open>in\<close>, \<open>len\<close> and iteration, and
  whatever \<open>requests.get(...).json()\<close> raises (a \<open>RequestException\<close> or a JSON decoding
  error), which is kept with its message.
\<close>

datatype pykey = KStr ustr | KInt int

datatype pytype = TNone | TBool | TInt | TFloat | TStr | TList | TDict

datatype pyop = OpContains | OpGetItem | OpLen | OpIter

datatype py_exn =
    KeyError pykey
  | IndexError pytype
  | TypeError pyop pytype
  | RequestError ustr

type_synonym 'a result = "py_exn + 'a"

definition bindE :: "'a result \<Rightarrow> ('a \<Rightarrow> 'b result) \<Rightarrow> 'b result" where
  "bindE m f = (case m of Inl e \<Rightarrow> Inl e | Inr x \<Rightarrow> f x)"

fun type_of :: "'f json \<Rightarrow> pytype" where
  "type_of JNull = TNone"
| "type_of (JBool _) = TBool"
| "type_of (JInt _) = TInt"
| "type_of (JFloat _) = TFloat"
| "type_of (JStr _) = TStr"
| "type_of (JArr _) = TList"
| "type_of (JObj _) = TDict"

subsection \<open>Library behaviour taken as given\<close>

text \<open>
  The parts of the Python library whose result the code only passes on:
  \<open>repr\<close> of a decoded JSON value that is not a string, \<open>str(e)\<close> of an exception,
  \<open>str.upper\<close> and \<open>str.lower\<close> on strings that hold a non-ASCII character, and
  \<open>date.isoformat\<close> of a day given by its ordinal.
\<close>

record 'f pylib =
  repr :: "'f json \<Rightarrow> ustr"
  str_exn :: "py_exn \<Rightarrow> ustr"
  uni_upper :: "ustr \<Rightarrow> ustr"
  uni_lower :: "ustr \<Rightarrow> ustr"
  isoformat :: "int \<Rightarrow> ustr"

text \<open>\<open>f"{v}"\<close>: a string is inserted as it is, any other value by its \<open>repr\<close>.\<close>

definition py_str :: "'f pylib \<Rightarrow> 'f json \<Rightarrow> ustr" where
  "py_str lib v = (case v of JStr s \<Rightarrow> s | _ \<Rightarrow> repr lib v)"

definition is_ascii :: "ustr \<Rightarrow> bool" where
  "is_ascii s = list_all (\<lambda>c. c < 128) s"

definition ascii_upper :: "nat \<Rightarrow> nat" where
  "ascii_upper c = (if 97 \<le> c \<and> c \<le> 122 then c - 32 else c)"

definition ascii_lower :: "nat \<Rightarrow> nat" where
  "ascii_lower c = (if 65 \<le> c \<and> c \<le> 90 then c + 32 else c)"

definition upper :: "'f pylib \<Rightarrow> ustr \<Rightarrow> ustr" where
  "upper lib s = (if is_ascii s then map ascii_upper s else uni_upper lib s)"

definition lower :: "'f pylib \<Rightarrow> ustr \<Rightarrow> ustr" where
  "lower lib s = (if is_ascii s then map ascii_lower s else uni_lower lib s)"

subsection \<open>Operations on decoded JSON\<close>

text \<open>\<open>key in v\<close> for a string \<open>key\<close>.\<close>

fun py_contains :: "ustr \<Rightarrow> 'f json \<Rightarrow> bool result" where
  "py_contains k (JObj kvs) = Inr (k \<in> set (map fst kvs))"
| "py_contains k (JArr xs) = Inr (JStr k \<in> set xs)"
| "py_contains k (JStr s) = Inr (sublist k s)"
| "py_contains k v = Inl (TypeError OpContains (type_of v))"

text \<open>\<open>v[key]\<close> for a string \<open>key\<close>.\<close>

fun getitem :: "'f json \<Rightarrow> ustr \<Rightarrow> 'f json result" where
  "getitem (JObj kvs) k = (case map_of kvs k of None \<Rightarrow> Inl (KeyError (KStr k)) | Some v \<Rightarrow> Inr v)"
| "getitem v k = Inl (TypeError OpGetItem (type_of v))"

text \<open>\<open>v[i]\<close> for an index \<open>i \<ge> 0\<close>.\<close>

fun getindex :: "'f json \<Rightarrow> nat \<Rightarrow> 'f json result" where
  "getindex (JArr xs) i = (if i < length xs then Inr (xs ! i) else Inl (IndexError TList))"
| "getindex (JStr s) i = (if i < length s then Inr (JStr [s ! i]) else Inl (IndexError TStr))"
| "getindex (JObj kvs) i = Inl (KeyError (KInt (int i)))"
| "getindex v i = Inl (TypeError OpGetItem (type_of v))"

text \<open>\<open>len(v)\<close>.\<close>

fun py_len :: "'f json \<Rightarrow> nat result" where
  "py_len (JArr xs) = Inr (length xs)"
| "py_len (JStr s) = Inr (length s)"
| "py_len (JObj kvs) = Inr (length kvs)"
| "py_len v = Inl (TypeError OpLen (type_of v))"

text \<open>The items that \<open>for f in v\<close> visits.\<close>

fun py_iter :: "'f json \<Rightarrow> 'f json list result" where
  "py_iter (JArr xs) = Inr xs"
| "py_iter (JStr s) = Inr (map (\<lambda>c. JStr [c]) s)"
| "py_iter (JObj kvs) = Inr (map (\<lambda>kv. JStr (fst kv)) kvs)"
| "py_iter v = Inl (TypeError OpIter (type_of v))"

section \<open>The HTTP layer\<close>

text \<open>
  \<open>requests.get(url, headers=..., params=...).json()\<close> either raises or returns decoded
  JSON.  Nothing is assumed of the network: the outcome of a call is an arbitrary function
  \<open>http\<close> of all requests issued so far, the current one last.  The program state is the
  log of requests issued.
\<close>

datatype pval = PStr ustr | PInt int

record request =
  url :: ustr
  headers :: "(ustr \<times> ustr) list"
  params :: "(ustr \<times> pval) list"

type_synonym 'f http = "request list \<Rightarrow> 'f json result"

definition requests_get_json ::
  "'f http \<Rightarrow> request \<Rightarrow> request list \<Rightarrow> 'f json result \<times> request list" where
  "requests_get_json http req log = (http (log @ [req]), log @ [req])"

section \<open>\<open>get_weather\<close>\<close>

definition geo_request :: "ustr \<Rightarrow> request" where
  "geo_request destination =
     \<lparr>url = u ''https://geocoding-api.open-meteo.com/v1/search?name='' @ destination
              @ u ''&count=1'',
      headers = [], params = []\<rparr>"

definition weather_request :: "'f pylib \<Rightarrow> 'f json \<Rightarrow> 'f json \<Rightarrow> request" where
  "weather_request lib lat lon =
     \<lparr>url = u ''https://api.open-meteo.com/v1/forecast?latitude='' @ py_str lib lat
              @ u ''&longitude='' @ py_str lib lon
              @ u ''&daily=temperature_2m_max,temperature_2m_min,weathercode&forecast_days=3&timezone=auto'',
      headers = [], params = []\<rparr>"

text \<open>
  The body of the loop over \<open>range(len(weather_res["daily"]["time"]))\<close>, for the indices
  still to visit; \<open>temps\<close> is the list built so far.
\<close>

fun weather_loop :: "'f pylib \<Rightarrow> 'f json \<Rightarrow> nat list \<Rightarrow> ustr list \<Rightarrow> ustr list result" where
  "weather_loop lib weather_res [] temps = Inr temps"
| "weather_loop lib weather_res (i # is) temps =
     bindE (bindE (bindE (getitem weather_res (u ''daily'')) (\<lambda>d. getitem d (u ''time'')))
                  (\<lambda>t. getindex t i)) (\<lambda>date.
     bindE (bindE (bindE (getitem weather_res (u ''daily''))
                         (\<lambda>d. getitem d (u ''temperature_2m_max'')))
                  (\<lambda>t. getindex t i)) (\<lambda>tmax.
     bindE (bindE (bindE (getitem weather_res (u ''daily''))
                         (\<lambda>d. getitem d (u ''temperature_2m_min'')))
                  (\<lambda>t. getindex t i)) (\<lambda>tmin.
     weather_loop lib weather_res is
       (temps @ [py_str lib date @ u '': '' @ py_str lib tmin @ degree @ u ''C - ''
                 @ py_str lib tmax @ degree @ u ''C'']))))"

text \<open>
  The \<open>try\<close> block of \<open>get_weather\<close> (lines 14 to 37).  The unused
  \<open>today = datetime.date.today()\<close> is left out.
\<close>

definition get_weather_try ::
  "'f pylib \<Rightarrow> 'f http \<Rightarrow> ustr \<Rightarrow> request list \<Rightarrow> ustr result \<times> request list" where
  "get_weather_try lib http destination log =
     (case requests_get_json http (geo_request destination) log of
        (Inl e, log1) \<Rightarrow> (Inl e, log1)
      | (Inr geo_res, log1) \<Rightarrow>
          (case py_contains (u ''results'') geo_res of
             Inl e \<Rightarrow> (Inl e, log1)
           | Inr False \<Rightarrow>
               (Inr (globe @ u '' Weather info for '' @ destination @ u '' not found.''), log1)
           | Inr True \<Rightarrow>
               (case bindE (bindE (getitem geo_res (u ''results'')) (\<lambda>r. getindex r 0))
                           (\<lambda>r. getitem r (u ''latitude'')) of
                  Inl e \<Rightarrow> (Inl e, log1)
                | Inr lat \<Rightarrow>
                    (case bindE (bindE (getitem geo_res (u ''results'')) (\<lambda>r. getindex r 0))
                                (\<lambda>r. getitem r (u ''longitude'')) of
                       Inl e \<Rightarrow> (Inl e, log1)
                     | Inr lon \<Rightarrow>
                         (case requests_get_json http (weather_request lib lat lon) log1 of
                            (Inl e, log2) \<Rightarrow> (Inl e, log2)
                          | (Inr weather_res, log2) \<Rightarrow>
                              (bindE (bindE (bindE (getitem weather_res (u ''daily''))
                                                   (\<lambda>d. getitem d (u ''time''))) py_len)
                                     (\<lambda>n. bindE (weather_loop lib weather_res [0..<n] [])
                                                 (\<lambda>temps. Inr (join (u '' | '') temps))),
                               log2))))))"

text \<open>\<open>get_weather\<close>: the \<open>try\<close> block under \<open>except Exception as e\<close>.\<close>

definition get_weather ::
  "'f pylib \<Rightarrow> 'f http \<Rightarrow> ustr \<Rightarrow> request list \<Rightarrow> ustr result \<times> request list" where
  "get_weather lib http destination log =
     (case get_weather_try lib http destination log of
        (Inl e, log') \<Rightarrow> (Inr (cross @ u '' Weather API error: '' @ str_exn lib e), log')
      | (Inr s, log') \<Rightarrow> (Inr s, log'))"

section \<open>\<open>get_flight_options\<close>\<close>

text \<open>
  The credential is \<open>None\<close> (the default) or a string.  \<open>not amadeus_api_key\<close> is true
  for \<open>None\<close> and for the empty string; \<open>f"{amadeus_api_key}"\<close> inserts a string as it
  is.
\<close>

fun falsy :: "ustr option \<Rightarrow> bool" where
  "falsy None = True"
| "falsy (Some k) = (k = [])"

fun key_text :: "ustr option \<Rightarrow> ustr" where
  "key_text None = u ''None''"
| "key_text (Some k) = k"

definition mock_flights :: "'f pylib \<Rightarrow> ustr \<Rightarrow> ustr list" where
  "mock_flights lib destination =
     [plane @ u '' DEL '' @ arrow @ u '' '' @ upper lib destination @ u '' : '' @ rupee
        @ u ''4,500 (Mock)'',
      plane @ u '' BOM '' @ arrow @ u '' '' @ upper lib destination @ u '' : '' @ rupee
        @ u ''5,200 (Mock)'']"

text \<open>
  The request of lines 54 to 65.  \<open>today\<close> is the ordinal of \<open>datetime.date.today()\<close>;
  adding \<open>timedelta(days=7)\<close> adds 7 to it.
\<close>

definition flight_request :: "'f pylib \<Rightarrow> int \<Rightarrow> ustr \<Rightarrow> ustr option \<Rightarrow> request" where
  "flight_request lib today destination amadeus_api_key =
     (let origin = u ''DEL'';
          date = isoformat lib (today + 7)
      in \<lparr>url = u ''https://test.api.amadeus.com/v2/shopping/flight-offers'',
          headers = [(u ''Authorization'', u ''Bearer '' @ key_text amadeus_api_key)],
          params = [(u ''originLocationCode'', PStr origin),
                    (u ''destinationLocationCode'',
                       PStr (if lower lib destination = u ''goa'' then u ''GOI'' else u ''KUU'')),
                    (u ''departureDate'', PStr date),
                    (u ''adults'', PInt 1),
                    (u ''max'', PInt 2)]\<rparr>)"

text \<open>The body of \<open>for f in res["data"]\<close> (lines 72 to 76): the line built for \<open>f\<close>.\<close>

definition flight_line :: "'f pylib \<Rightarrow> 'f json \<Rightarrow> ustr result" where
  "flight_line lib f =
     bindE (bindE (getitem f (u ''price'')) (\<lambda>p. getitem p (u ''total''))) (\<lambda>price.
     bindE (bindE (getitem f (u ''itineraries'')) (\<lambda>its. getindex its 0)) (\<lambda>itinerary.
     bindE (bindE (bindE (bindE (getitem itinerary (u ''segments'')) (\<lambda>s. getindex s 0))
                         (\<lambda>s. getitem s (u ''departure''))) (\<lambda>d. getitem d (u ''iataCode'')))
           (\<lambda>dep.
     bindE (bindE (bindE (bindE (getitem itinerary (u ''segments'')) (\<lambda>s. getindex s 0))
                         (\<lambda>s. getitem s (u ''arrival''))) (\<lambda>d. getitem d (u ''iataCode'')))
           (\<lambda>arr.
     Inr (plane @ u '' '' @ py_str lib dep @ u '' '' @ arrow @ u '' '' @ py_str lib arr
          @ u '' : '' @ rupee @ py_str lib price)))))"

fun flights_loop :: "'f pylib \<Rightarrow> 'f json list \<Rightarrow> ustr list \<Rightarrow> ustr list result" where
  "flights_loop lib [] flights = Inr flights"
| "flights_loop lib (f # fs) flights =
     bindE (flight_line lib f) (\<lambda>line. flights_loop lib fs (flights @ [line]))"

text \<open>The \<open>try\<close> block of \<open>get_flight_options\<close> (lines 46 to 79).\<close>

definition get_flight_options_try ::
  "'f pylib \<Rightarrow> 'f http \<Rightarrow> int \<Rightarrow> ustr \<Rightarrow> ustr option \<Rightarrow> request list
     \<Rightarrow> ustr list result \<times> request list" where
  "get_flight_options_try lib http today destination amadeus_api_key log =
     (if falsy amadeus_api_key then (Inr (mock_flights lib destination), log)
      else
        (case requests_get_json http
                (flight_request lib today destination amadeus_api_key) log of
           (Inl e, log1) \<Rightarrow> (Inl e, log1)
         | (Inr res, log1) \<Rightarrow>
             (bindE (py_contains (u ''data'') res) (\<lambda>has_data.
                if \<not> has_data then Inr [u ''No flights found.'']
                else bindE (bindE (getitem res (u ''data'')) py_iter)
                           (\<lambda>offers. flights_loop lib offers [])),
              log1)))"

text \<open>\<open>get_flight_options\<close>: the \<open>try\<close> block under \<open>except Exception as e\<close>.\<close>

definition get_flight_options ::
  "'f pylib \<Rightarrow> 'f http \<Rightarrow> int \<Rightarrow> ustr \<Rightarrow> ustr option \<Rightarrow> request list
     \<Rightarrow> ustr list result \<times> request list" where
  "get_flight_options lib http today destination amadeus_api_key log =
     (case get_flight_options_try lib http today destination amadeus_api_key log of
        (Inl e, log') \<Rightarrow> (Inr [cross @ u '' Flight API error: '' @ str_exn lib e], log')
      | (Inr fs, log') \<Rightarrow> (Inr fs, log'))"

section \<open>The prompt\<close>

text \<open>
  Line 123: \<open>", ".join(interests) if interests else "general sightseeing"\<close>.
\<close>

definition interests_text :: "ustr list \<Rightarrow> ustr" where
  "interests_text interests =
     (if interests \<noteq> [] then join (u '', '') interests else u ''general sightseeing'')"

text \<open>
  The f-string of lines 128 to 138, the text of the \<open>"human"\<close> message.  \<open>days\<close> is the
  integer of the number input.
\<close>

definition human_text :: "int \<Rightarrow> ustr \<Rightarrow> ustr \<Rightarrow> ustr \<Rightarrow> ustr \<Rightarrow> ustr list \<Rightarrow> ustr" where
  "human_text days destination budget interests_txt weather_info flight_info =
     nl @ u ''Plan a '' @ str_int days @ u ''-day trip to '' @ destination @ u ''.'' @ nl
     @ u ''Budget: '' @ budget @ u ''.'' @ nl
     @ u ''Traveler interests: '' @ interests_txt @ u ''.'' @ nl
     @ nl
     @ u ''IMPORTANT:'' @ nl
     @ u ''1. First, clearly display the WEATHER DATA provided: '' @ weather_info @ u ''.'' @ nl
     @ u ''2. Then, clearly display the FLIGHT OPTIONS provided: ''
     @ join (u '', '') flight_info @ u ''.'' @ nl
     @ u ''3. After that, suggest a day-by-day itinerary (activities, attractions, food, culture).''
     @ nl
     @ u ''Make sure weather and flight info are visible in the final answer.'' @ nl"

text \<open>
  The message list given to \<open>ChatPromptTemplate.from_messages\<close> (lines 126 to 139): pairs
  of a role and a text.
\<close>

definition prompt ::
  "int \<Rightarrow> ustr \<Rightarrow> ustr \<Rightarrow> ustr list \<Rightarrow> ustr \<Rightarrow> ustr list \<Rightarrow> (ustr \<times> ustr) list" where
  "prompt days destination budget interests weather_info flight_info =
     [(u ''system'', u ''You are a helpful AI travel planner.''),
      (u ''human'',
       human_text days destination budget (interests_text interests) weather_info flight_info)]"

text \<open>
  \<open>ChatPromptTemplate\<close> takes every text of the list as a template in the syntax of
  \<open>str.format\<close>, and line 148 sends \<open>prompt.format_messages()\<close>, called with no
  variables.  In a template \<open>{{\<close> stands for \<open>{\<close> and \<open>}}\<close> for \<open>}\<close>.  Any other brace
  opens a replacement field or is malformed; then \<open>from_messages\<close> raises (a malformed
  template) or \<open>format_messages\<close> does (no value for the field).  Both calls are inside the
  \<open>try\<close> of line 119, and the model keeps one exception for them.
\<close>

datatype template_exn = TemplateError

definition is_brace :: "nat \<Rightarrow> bool" where
  "is_brace c = (c = 123 \<or> c = 125)"

fun format_template :: "ustr \<Rightarrow> template_exn + ustr" where
  "format_template [] = Inr []"
| "format_template [c] = (if is_brace c then Inl TemplateError else Inr [c])"
| "format_template (c # d # cs) =
     (if is_brace c
      then (if d = c
            then (case format_template cs of Inl e \<Rightarrow> Inl e | Inr r \<Rightarrow> Inr (c # r))
            else Inl TemplateError)
      else (case format_template (d # cs) of Inl e \<Rightarrow> Inl e | Inr r \<Rightarrow> Inr (c # r)))"

fun format_messages :: "(ustr \<times> ustr) list \<Rightarrow> template_exn + (ustr \<times> ustr) list" where
  "format_messages [] = Inr []"
| "format_messages ((role, text) # ms) =
     (case format_template text of
        Inl e \<Rightarrow> Inl e
      | Inr t \<Rightarrow>
          (case format_messages ms of Inl e \<Rightarrow> Inl e | Inr r \<Rightarrow> Inr ((role, t) # r)))"

text \<open>
  The messages that \<open>llm.invoke\<close> receives on line 148, or the exception raised on the way.
\<close>

definition formatted_prompt ::
  "int \<Rightarrow> ustr \<Rightarrow> ustr \<Rightarrow> ustr list \<Rightarrow> ustr \<Rightarrow> ustr list
     \<Rightarrow> template_exn + (ustr \<times> ustr) list" where
  "formatted_prompt days destination budget interests weather_info flight_info =
     format_messages (prompt days destination budget interests weather_info flight_info)"

text \<open>A string without a curly brace.\<close>

definition brace_free :: "ustr \<Rightarrow> bool" where
  "brace_free s = list_all (\<lambda>c. \<not> is_brace c) s"

section \<open>\<open>create_pdf\<close>\<close>

text \<open>
  The canvas of \<open>reportlab\<close> as far as the code drives it: the pages closed so far and the
  operations of the page in progress.  \<open>setFont\<close> and \<open>drawString\<close> add an operation to
  the page in progress, \<open>showPage\<close> closes it and starts an empty one, and \<open>save\<close>
  closes the page in progress when it holds any operation.  The document is the list of
  its pages; how \<open>reportlab\<close> writes it as bytes is not modelled.

  \<open>letter\<close> is 612 by 792 points.  The source computes the cursor in floating point; every
  value it takes is a whole number below 1000, where that arithmetic is exact, so the cursor
  is an integer here.
\<close>

datatype pdf_op = SetFont ustr int | DrawString int int ustr

record canvas =
  pages :: "pdf_op list list"
  code :: "pdf_op list"

definition Canvas :: canvas where
  "Canvas = \<lparr>pages = [], code = []\<rparr>"

definition setFont :: "ustr \<Rightarrow> int \<Rightarrow> canvas \<Rightarrow> canvas" where
  "setFont psfontname fontsize pdf = pdf\<lparr>code := code pdf @ [SetFont psfontname fontsize]\<rparr>"

definition drawString :: "int \<Rightarrow> int \<Rightarrow> ustr \<Rightarrow> canvas \<Rightarrow> canvas" where
  "drawString x y line pdf = pdf\<lparr>code := code pdf @ [DrawString x y line]\<rparr>"

definition showPage :: "canvas \<Rightarrow> canvas" where
  "showPage pdf = \<lparr>pages = pages pdf @ [code pdf], code = []\<rparr>"

definition save :: "canvas \<Rightarrow> pdf_op list list" where
  "save pdf = pages (if code pdf \<noteq> [] then showPage pdf else pdf)"

definition letter :: "int \<times> int" where
  "letter = (612, 792)"

text \<open>The loop of lines 167 to 173, from a canvas and a cursor to the canvas and cursor after it.\<close>

fun draw_lines :: "int \<Rightarrow> ustr list \<Rightarrow> canvas \<Rightarrow> int \<Rightarrow> canvas \<times> int" where
  "draw_lines height [] pdf y = (pdf, y)"
| "draw_lines height (line # lines) pdf y =
     (let pdf1 = drawString 50 y line pdf;
          y1 = y - 20
      in if y1 < 50
         then draw_lines height lines (setFont (u ''Helvetica'') 12 (showPage pdf1)) (height - 50)
         else draw_lines height lines pdf1 y1)"

definition create_pdf :: "ustr \<Rightarrow> pdf_op list list" where
  "create_pdf text =
     (let pdf = Canvas;
          (width, height) = letter;
          pdf = setFont (u ''Helvetica'') 12 pdf;
          y = height - 50;
          (pdf, y) = draw_lines height (split_nl text) pdf y
      in save pdf)"

section \<open>Case-insensitive equality\<close>

text \<open>
  Following the words of the specification (\<open>"goa"\<close> "case-insensitively"): two strings
  are equal case-insensitively when their lowercase forms are the same string.
\<close>

definition equals_ignoring_case :: "'f pylib \<Rightarrow> ustr \<Rightarrow> ustr \<Rightarrow> bool" where
  "equals_ignoring_case lib a b = (lower lib a = lower lib b)"

section \<open>Values for the worked examples\<close>

text \<open>
  An instance of the library, exact on what the examples use: \<open>repr\<close> of an integer,
  \<open>str(e)\<close> of a request error (its message), and ASCII strings.
\<close>

definition lib0 :: "unit pylib" where
  "lib0 = \<lparr>repr = (\<lambda>v. case v of JInt i \<Rightarrow> str_int i | _ \<Rightarrow> u ''?''),
           str_exn = (\<lambda>e. case e of RequestError m \<Rightarrow> m | _ \<Rightarrow> u ''error''),
           uni_upper = (\<lambda>s. s),
           uni_lower = (\<lambda>s. s),
           isoformat = (\<lambda>d. u ''2026-11-10'')\<rparr>"

text \<open>A network that is down, and one that answers every request with the same JSON.\<close>

definition net_down :: "unit http" where
  "net_down = (\<lambda>log. Inl (RequestError (u ''connection refused'')))"

definition net_always :: "unit json \<Rightarrow> unit http" where
  "net_always j = (\<lambda>log. Inr j)"

text \<open>One flight offer, with the fields the code reads.\<close>

definition offer_del_goi :: "unit json" where
  "offer_del_goi =
     JObj [(u ''price'', JObj [(u ''total'', JStr (u ''4500.00''))]),
           (u ''itineraries'',
            JArr [JObj [(u ''segments'',
                         JArr [JObj [(u ''departure'', JObj [(u ''iataCode'', JStr (u ''DEL''))]),
                                     (u ''arrival'', JObj [(u ''iataCode'', JStr (u ''GOI''))])]])]])]"

text \<open>Sixty lines \<open>x\<close> separated by 59 line feeds.\<close>

definition sixty_lines :: ustr where
  "sixty_lines = concat (replicate 59 (u ''x'' @ nl)) @ u ''x''"

section \<open>Auxiliary facts\<close>

lemma sublist_left: "sublist xs ys \<Longrightarrow> sublist xs (zs @ ys)"
  by (auto simp: sublist_def) (metis append.assoc)

lemma sublist_join: "f \<in> set fs \<Longrightarrow> sublist f (join sep fs)"
proof (induction sep fs rule: join.induct)
  case (3 sep x y ys)
  then show ?case
    by (cases "f = x") (auto intro: sublist_left)
qed simp_all

lemma py_contains_obj: "map_of kvs k = Some v \<Longrightarrow> py_contains k (JObj kvs) = Inr True"
  by (auto dest: map_of_SomeD intro: rev_image_eqI)

lemma lower_goa: "lower lib (u ''goa'') = u ''goa''"
  by (simp add: lower_def is_ascii_def ascii_lower_def u_def)

text \<open>
  On ASCII destinations, equality with \<open>"goa"\<close> up to case is membership in the eight
  spellings of the word.
\<close>

lemma ascii_lower_goa:
  "ascii_lower c = 103 \<longleftrightarrow> c = 103 \<or> c = 71"
  "ascii_lower c = 111 \<longleftrightarrow> c = 111 \<or> c = 79"
  "ascii_lower c = 97 \<longleftrightarrow> c = 97 \<or> c = 65"
  by (auto simp: ascii_lower_def)

lemma equals_goa_ascii:
  assumes "is_ascii d"
  shows "equals_ignoring_case lib d (u ''goa'')
     \<longleftrightarrow> d \<in> {u ''goa'', u ''goA'', u ''gOa'', u ''gOA'',
              u ''Goa'', u ''GoA'', u ''GOa'', u ''GOA''}"
proof -
  have "equals_ignoring_case lib d (u ''goa'') \<longleftrightarrow> map ascii_lower d = [103, 111, 97]"
    using assms by (simp add: equals_ignoring_case_def lower_goa) (simp add: lower_def u_def)
  also have "\<dots> \<longleftrightarrow> (\<exists>a b c. d = [a, b, c] \<and> (a = 103 \<or> a = 71)
                         \<and> (b = 111 \<or> b = 79) \<and> (c = 97 \<or> c = 65))"
    by (auto simp: map_eq_Cons_conv ascii_lower_goa)
  also have "\<dots> \<longleftrightarrow> d \<in> {u ''goa'', u ''goA'', u ''gOa'', u ''gOA'',
                          u ''Goa'', u ''GoA'', u ''GOa'', u ''GOA''}"
    by (auto simp: u_def)
  finally show ?thesis .
qed

subsection \<open>The flight loop\<close>

lemma flights_loop_lines:
  "map (flight_line lib) offers = map Inr lines \<Longrightarrow>
     flights_loop lib offers flights = Inr (flights @ lines)"
proof (induction offers arbitrary: flights lines)
  case Nil
  then show ?case by simp
next
  case (Cons f fs)
  then obtain l ls where
    "lines = l # ls" "flight_line lib f = Inr l" "map (flight_line lib) fs = map Inr ls"
    by (cases lines) auto
  with Cons.IH[of ls "flights @ [l]"] show ?case
    by (simp add: bindE_def)
qed

lemma all_lines:
  "\<forall>f \<in> set offers. \<exists>l. flight_line lib f = Inr l \<Longrightarrow>
     \<exists>lines. map (flight_line lib) offers = map Inr lines"
proof (induction offers)
  case Nil
  then show ?case by simp
next
  case (Cons f fs)
  then obtain l ls where "flight_line lib f = Inr l" "map (flight_line lib) fs = map Inr ls"
    by auto
  then have "map (flight_line lib) (f # fs) = map Inr (l # ls)" by simp
  then show ?case by blast
qed

lemma flight_request_sent:
  "k \<noteq> [] \<Longrightarrow>
     snd (get_flight_options lib http today destination (Some k) log)
       = log @ [flight_request lib today destination (Some k)]"
  by (simp add: get_flight_options_def get_flight_options_try_def requests_get_json_def
           split: sum.splits)

lemma flights_when_no_data_key:
  assumes "k \<noteq> []"
      and "http (log @ [flight_request lib today destination (Some k)]) = Inr res"
      and "py_contains (u ''data'') res = Inr False"
  shows "fst (get_flight_options lib http today destination (Some k) log)
           = Inr [u ''No flights found.'']"
  using assms
  by (simp add: get_flight_options_def get_flight_options_try_def requests_get_json_def bindE_def)

lemma flights_when_request_fails:
  assumes "k \<noteq> []"
      and "http (log @ [flight_request lib today destination (Some k)]) = Inl e"
  shows "fst (get_flight_options lib http today destination (Some k) log)
           = Inr [cross @ u '' Flight API error: '' @ str_exn lib e]"
  using assms
  by (simp add: get_flight_options_def get_flight_options_try_def requests_get_json_def)

text \<open>An offer with the fields of the flight-offer search has a line.\<close>

lemma flight_line_well_formed:
  assumes "map_of f (u ''price'') = Some (JObj p)"
      and "map_of p (u ''total'') = Some price"
      and "map_of f (u ''itineraries'') = Some (JArr (JObj it # its))"
      and "map_of it (u ''segments'') = Some (JArr (JObj seg # segs))"
      and "map_of seg (u ''departure'') = Some (JObj d)"
      and "map_of d (u ''iataCode'') = Some dep"
      and "map_of seg (u ''arrival'') = Some (JObj a)"
      and "map_of a (u ''iataCode'') = Some arr"
  shows "flight_line lib (JObj f)
           = Inr (plane @ u '' '' @ py_str lib dep @ u '' '' @ arrow @ u '' '' @ py_str lib arr
                  @ u '' : '' @ rupee @ py_str lib price)"
  using assms by (simp add: flight_line_def bindE_def)

lemma flight_line_offer_del_goi:
  "flight_line lib0 offer_del_goi
     = Inr (plane @ u '' DEL '' @ arrow @ u '' GOI : '' @ rupee @ u ''4500.00'')"
  by (simp add: flight_line_def offer_del_goi_def bindE_def py_str_def u_def)

subsection \<open>The prompt as a template\<close>

lemma human_text_contains:
  "sublist weather_info (human_text days destination budget it weather_info flight_info)"
  "f \<in> set flight_info \<Longrightarrow>
     sublist f (human_text days destination budget it weather_info flight_info)"
proof -
  show "sublist weather_info (human_text days destination budget it weather_info flight_info)"
    unfolding human_text_def by (intro sublist_append_rightI sublist_left)
  have j: "sublist (join (u '', '') flight_info)
             (human_text days destination budget it weather_info flight_info)"
    unfolding human_text_def by (intro sublist_append_rightI sublist_left)
  show "sublist f (human_text days destination budget it weather_info flight_info)"
    if "f \<in> set flight_info"
    using sublist_join[OF that, of "u '', ''"] j sublist_order.order_trans by blast
qed

lemma format_template_brace_free: "brace_free t \<Longrightarrow> format_template t = Inr t"
  by (induction t rule: format_template.induct) (auto simp: brace_free_def)

lemma brace_free_append: "brace_free (a @ b) \<longleftrightarrow> brace_free a \<and> brace_free b"
  by (simp add: brace_free_def)

lemma brace_free_digits: "brace_free (digits n)"
proof (induction n rule: digits.induct)
  case (1 n)
  show ?case
  proof (cases "n < 10")
    case True
    then have "digits n = [48 + n]" by (subst digits.simps) simp
    with True show ?thesis by (simp add: brace_free_def is_brace_def del: digits.simps)
  next
    case False
    then have d: "digits n = digits (n div 10) @ [48 + n mod 10]" by (subst digits.simps) simp
    have "\<not> is_brace (48 + n mod 10)"
      by (simp add: is_brace_def) presburger
    with "1.IH"[OF False] show ?thesis
      by (simp add: d brace_free_def del: digits.simps)
  qed
qed

lemma brace_free_str_int: "brace_free (str_int i)"
  using brace_free_digits
  by (simp add: str_int_def brace_free_append del: digits.simps) (simp add: brace_free_def u_def is_brace_def)

lemma brace_free_join:
  "brace_free sep \<Longrightarrow> list_all brace_free xs \<Longrightarrow> brace_free (join sep xs)"
  by (induction sep xs rule: join.induct) (simp_all add: brace_free_append brace_free_def)

lemma brace_free_human_text:
  assumes "brace_free destination" "brace_free budget" "brace_free it"
      and "brace_free weather_info" "list_all brace_free flight_info"
  shows "brace_free (human_text days destination budget it weather_info flight_info)"
proof -
  have sep: "brace_free (u '', '')"
    by (simp add: brace_free_def u_def is_brace_def)
  have lits:
    "brace_free nl" "brace_free (u ''Plan a '')" "brace_free (u ''-day trip to '')"
    "brace_free (u ''.'')" "brace_free (u ''Budget: '')"
    "brace_free (u ''Traveler interests: '')" "brace_free (u ''IMPORTANT:'')"
    "brace_free (u ''1. First, clearly display the WEATHER DATA provided: '')"
    "brace_free (u ''2. Then, clearly display the FLIGHT OPTIONS provided: '')"
    "brace_free (u ''3. After that, suggest a day-by-day itinerary (activities, attractions, food, culture).'')"
    "brace_free (u ''Make sure weather and flight info are visible in the final answer.'')"
    by (simp_all add: brace_free_def u_def nl_def is_brace_def)
  from assms brace_free_join[OF sep assms(5)] lits show ?thesis
    by (simp add: human_text_def brace_free_append brace_free_str_int)
qed

text \<open>
  When none of the strings put into the f-string holds a curly brace, the template is
  formatted to itself, and the instruction sent holds the weather string and every flight
  string as they are.
\<close>

lemma formatted_prompt_brace_free:
  assumes "brace_free destination" "brace_free budget" "list_all brace_free interests"
      and "brace_free weather_info" "list_all brace_free flight_info"
  shows "\<exists>instr. formatted_prompt days destination budget interests weather_info flight_info
                   = Inr [(u ''system'', u ''You are a helpful AI travel planner.''),
                          (u ''human'', instr)]
           \<and> sublist weather_info instr
           \<and> (\<forall>f \<in> set flight_info. sublist f instr)"
proof -
  have sep: "brace_free (u '', '')"
    by (simp add: brace_free_def u_def is_brace_def)
  have "brace_free (interests_text interests)"
    using brace_free_join[OF sep assms(3)]
    by (simp add: interests_text_def) (simp add: brace_free_def u_def is_brace_def)
  from brace_free_human_text[OF assms(1,2) this assms(4,5)]
  have h: "format_template
             (human_text days destination budget (interests_text interests) weather_info
                flight_info)
           = Inr (human_text days destination budget (interests_text interests) weather_info
                    flight_info)"
    by (rule format_template_brace_free)
  have "brace_free (u ''You are a helpful AI travel planner.'')"
    by (simp add: brace_free_def u_def is_brace_def)
  then have sy: "format_template (u ''You are a helpful AI travel planner.'')
                 = Inr (u ''You are a helpful AI travel planner.'')"
    by (rule format_template_brace_free)
  have "formatted_prompt days destination budget interests weather_info flight_info
          = Inr [(u ''system'', u ''You are a helpful AI travel planner.''),
                 (u ''human'',
                  human_text days destination budget (interests_text interests) weather_info
                    flight_info)]"
    by (simp add: formatted_prompt_def prompt_def h sy)
  with human_text_contains show ?thesis by blast
qed

subsection \<open>The page loop\<close>

text \<open>
  On a Letter page the cursor takes the 35 values \<open>742, 722, ..., 62\<close>.  From the \<open>k\<close>-th
  of them, \<open>n\<close> more lines close \<open>(k + n) div 35\<close> pages and leave the cursor at position
  \<open>(k + n) mod 35\<close>; the page in progress is never empty, since it starts with the font.
\<close>

lemma draw_lines_pages:
  "k < 35 \<Longrightarrow> draw_lines 792 ls pdf (742 - 20 * int k) = (pdf', y') \<Longrightarrow>
     length (pages pdf') = length (pages pdf) + (k + length ls) div 35
     \<and> y' = 742 - 20 * int ((k + length ls) mod 35)
     \<and> (code pdf \<noteq> [] \<longrightarrow> code pdf' \<noteq> [])"
proof (induction ls arbitrary: k pdf)
  case Nil
  then show ?case by simp
next
  case (Cons l ls)
  show ?case
  proof (cases "k = 34")
    case True
    with Cons.prems have step:
      "draw_lines 792 ls
         (setFont (u ''Helvetica'') 12 (showPage (drawString 50 (742 - 20 * int k) l pdf)))
         (742 - 20 * int 0) = (pdf', y')"
      by (simp add: Let_def)
    from Cons.IH[OF _ step] True show ?thesis
      by (simp add: setFont_def showPage_def drawString_def)
  next
    case False
    with Cons.prems have k: "Suc k < 35" by simp
    from False Cons.prems have step:
      "draw_lines 792 ls (drawString 50 (742 - 20 * int k) l pdf) (742 - 20 * int (Suc k))
         = (pdf', y')"
      by (simp add: Let_def algebra_simps)
    from Cons.IH[OF k step] show ?thesis
      by (simp add: drawString_def)
  qed
qed

lemma create_pdf_pages: "length (create_pdf text) = length (split_nl text) div 35 + 1"
proof -
  obtain pdf' y' where r:
    "draw_lines 792 (split_nl text) (setFont (u ''Helvetica'') 12 Canvas) (742 - 20 * int 0)
       = (pdf', y')"
    by (cases "draw_lines 792 (split_nl text) (setFont (u ''Helvetica'') 12 Canvas)
                 (742 - 20 * int 0)")
  from draw_lines_pages[OF _ r]
  have "length (pages pdf') = length (split_nl text) div 35" "code pdf' \<noteq> []"
    by (simp_all add: setFont_def Canvas_def)
  with r show ?thesis
    by (simp add: create_pdf_def letter_def save_def showPage_def)
qed

lemma split_nl_not_Nil: "split_nl t \<noteq> []"
  by (induction t) (auto split: list.splits)

lemma length_split_nl: "length (split_nl t) = Suc (count_list t 10)"
  using split_nl_not_Nil by (induction t) (auto split: list.splits)

lemma count_list_append: "count_list (xs @ ys) c = count_list xs c + count_list ys c"
  by (induction xs) auto

lemma count_list_concat_replicate:
  "count_list (concat (replicate n xs)) c = n * count_list xs c"
  by (induction n) (auto simp: count_list_append)

lemma length_split_sixty_lines: "length (split_nl sixty_lines) = 60"
  by (simp add: length_split_nl sixty_lines_def count_list_append count_list_concat_replicate
                u_def nl_def)

section \<open>The claims\<close>

text \<open>
  C1.  Whatever the destination and whatever the HTTP layer does (it may raise at either
  call, or return any JSON at all), \<open>get_weather\<close> and \<open>get_flight_options\<close> return and
  do not raise: an exception \<open>e\<close> of the \<open>try\<close> block becomes the string
  "Weather API error: \<open>str(e)\<close>" in \<open>get_weather\<close>, and the one-element list holding
  "Flight API error: \<open>str(e)\<close>" in \<open>get_flight_options\<close>.
\<close>

theorem weather_and_flights_never_raise:
  "(\<exists>s. fst (get_weather lib http destination log) = Inr s)
   \<and> (\<exists>fs. fst (get_flight_options lib http today destination key log) = Inr fs)
   \<and> (\<forall>e log'. get_weather_try lib http destination log = (Inl e, log') \<longrightarrow>
         get_weather lib http destination log
           = (Inr (cross @ u '' Weather API error: '' @ str_exn lib e), log'))
   \<and> (\<forall>e log'. get_flight_options_try lib http today destination key log = (Inl e, log') \<longrightarrow>
         get_flight_options lib http today destination key log
           = (Inr [cross @ u '' Flight API error: '' @ str_exn lib e], log'))"
  by (auto simp: get_weather_def get_flight_options_def split: prod.splits sum.splits)

theorem weather_and_flights_never_raise_witness:
  "get_weather_try lib0 net_down (u ''Goa'') []
     = (Inl (RequestError (u ''connection refused'')), [geo_request (u ''Goa'')])
   \<and> get_weather lib0 net_down (u ''Goa'') []
     = (Inr (cross @ u '' Weather API error: '' @ u ''connection refused''),
        [geo_request (u ''Goa'')])
   \<and> get_flight_options_try lib0 net_down 0 (u ''Goa'') (Some (u ''k'')) []
     = (Inl (RequestError (u ''connection refused'')),
        [flight_request lib0 0 (u ''Goa'') (Some (u ''k''))])
   \<and> get_flight_options lib0 net_down 0 (u ''Goa'') (Some (u ''k'')) []
     = (Inr [cross @ u '' Flight API error: '' @ u ''connection refused''],
        [flight_request lib0 0 (u ''Goa'') (Some (u ''k''))])"
proof -
  have w: "get_weather_try lib0 net_down (u ''Goa'') []
     = (Inl (RequestError (u ''connection refused'')), [geo_request (u ''Goa'')])"
    by (simp add: get_weather_try_def requests_get_json_def net_down_def)
  have f: "get_flight_options_try lib0 net_down 0 (u ''Goa'') (Some (u ''k'')) []
     = (Inl (RequestError (u ''connection refused'')),
        [flight_request lib0 0 (u ''Goa'') (Some (u ''k''))])"
    by (simp add: get_flight_options_try_def requests_get_json_def net_down_def u_def)
  have s: "str_exn lib0 (RequestError (u ''connection refused'')) = u ''connection refused''"
    by (simp add: lib0_def)
  from weather_and_flights_never_raise
         [of lib0 net_down "u ''Goa''" "[]" 0 "Some (u ''k'')"] w f s
  show ?thesis by simp
qed

text \<open>
  C3, at a response that holds no offers.  When the flight-offer search answers with an
  empty \<open>data\<close> array, the key \<open>"data"\<close> is present, the loop runs over no offer, and
  \<open>get_flight_options\<close> returns the empty list: no element at all, and no
  "No flights found." entry.  (The lemmas \<open>flights_when_no_data_key\<close> and
  \<open>flights_when_request_fails\<close> above cover a response without the key and a failed
  request, which do give one element.)
\<close>

theorem get_flight_options_empty_data:
  "fst (get_flight_options lib (\<lambda>log. Inr (JObj [(u ''data'', JArr [])])) today destination
          (Some (u ''key'')) log) = Inr []"
  by (simp add: get_flight_options_def get_flight_options_try_def requests_get_json_def
                bindE_def u_def)

text \<open>
  C4.  When the geocoding request returns JSON in which \<open>"results"\<close> is not found (the
  test of line 19, the answer of the geocoding service for a name it does not know),
  \<open>get_weather\<close> returns the string "Weather info for \<open>destination\<close> not found.", which
  contains the destination as it was given; it does not raise, and it issues no second
  request.
\<close>

theorem get_weather_no_match:
  assumes "http (log @ [geo_request destination]) = Inr geo_res"
      and "py_contains (u ''results'') geo_res = Inr False"
  shows "\<exists>s. get_weather lib http destination log = (Inr s, log @ [geo_request destination])
            \<and> s = globe @ u '' Weather info for '' @ destination @ u '' not found.''
            \<and> sublist destination s"
  using assms
  by (simp add: get_weather_def get_weather_try_def requests_get_json_def sublist_left)

theorem get_weather_no_match_witness:
  "net_always (JObj [(u ''generationtime_ms'', JInt 1)]) ([] @ [geo_request (u ''Atlantis'')])
     = Inr (JObj [(u ''generationtime_ms'', JInt 1)])
   \<and> py_contains (u ''results'') (JObj [(u ''generationtime_ms'', JInt 1) :: ustr \<times> unit json])
     = Inr False
   \<and> (\<exists>s. get_weather lib0 (net_always (JObj [(u ''generationtime_ms'', JInt 1)]))
              (u ''Atlantis'') []
            = (Inr s, [] @ [geo_request (u ''Atlantis'')])
          \<and> s = globe @ u '' Weather info for '' @ u ''Atlantis'' @ u '' not found.''
          \<and> sublist (u ''Atlantis'') s)"
proof -
  have h1: "net_always (JObj [(u ''generationtime_ms'', JInt 1)])
              ([] @ [geo_request (u ''Atlantis'')])
            = Inr (JObj [(u ''generationtime_ms'', JInt 1)])"
    by (simp add: net_always_def)
  have h2: "py_contains (u ''results'')
              (JObj [(u ''generationtime_ms'', JInt 1) :: ustr \<times> unit json]) = Inr False"
    by (simp add: u_def)
  from get_weather_no_match
         [where http = "net_always (JObj [(u ''generationtime_ms'', JInt 1)])" and log = "[]"
            and destination = "u ''Atlantis''" and lib = lib0, OF h1 h2] h1 h2
  show ?thesis
    by blast
qed

text \<open>
  C5.  Without a credential \<open>get_flight_options\<close> returns exactly two strings and issues
  no request: "DEL \<rightarrow> D : 4,500 (Mock)" and "BOM \<rightarrow> D : 5,200 (Mock)", where \<open>D\<close> is
  \<open>destination.upper()\<close>.  Each contains \<open>D\<close> and the marker "(Mock)"; the origins and the
  prices are fixed, and the result is the same whatever the network, the date and the
  requests issued before.
\<close>

theorem mock_flights_without_credential:
  "get_flight_options lib http today destination None log
     = (Inr (mock_flights lib destination), log)
   \<and> mock_flights lib destination =
       [plane @ u '' DEL '' @ arrow @ u '' '' @ upper lib destination @ u '' : '' @ rupee
          @ u ''4,500 (Mock)'',
        plane @ u '' BOM '' @ arrow @ u '' '' @ upper lib destination @ u '' : '' @ rupee
          @ u ''5,200 (Mock)'']
   \<and> length (mock_flights lib destination) = 2
   \<and> (\<forall>s \<in> set (mock_flights lib destination).
         sublist (upper lib destination) s \<and> sublist (u ''(Mock)'') s)
   \<and> fst (get_flight_options lib http today destination None log)
       = fst (get_flight_options lib http' today' destination None log')"
proof -
  have m: "sublist (u ''(Mock)'') (u ''4,500 (Mock)'')"
          "sublist (u ''(Mock)'') (u ''5,200 (Mock)'')"
    by (simp_all add: sublist_code u_def)
  have d: "sublist (upper lib destination) (a @ b @ c @ e @ upper lib destination @ r)"
    for a b c e r
    using sublist_appendI[of "upper lib destination" "a @ b @ c @ e" r] by simp
  have k: "sublist (u ''(Mock)'') (a @ b @ c @ e @ f @ g @ h @ x)"
    if "sublist (u ''(Mock)'') x" for a b c e f g h x
    using that by (intro sublist_left)
  show ?thesis
    by (simp add: get_flight_options_def get_flight_options_try_def mock_flights_def d k m)
qed

theorem mock_flights_without_credential_witness:
  "get_flight_options lib0 net_down 0 (u ''Manali'') None []
     = (Inr [plane @ u '' DEL '' @ arrow @ u '' MANALI : '' @ rupee @ u ''4,500 (Mock)'',
             plane @ u '' BOM '' @ arrow @ u '' MANALI : '' @ rupee @ u ''5,200 (Mock)''], [])
   \<and> sublist (u ''MANALI'')
        (plane @ u '' DEL '' @ arrow @ u '' MANALI : '' @ rupee @ u ''4,500 (Mock)'')
   \<and> sublist (u ''(Mock)'')
        (plane @ u '' BOM '' @ arrow @ u '' MANALI : '' @ rupee @ u ''5,200 (Mock)'')"
proof -
  have up: "upper lib0 (u ''Manali'') = u ''MANALI''"
    by (simp add: upper_def is_ascii_def ascii_upper_def u_def)
  from mock_flights_without_credential[of lib0 net_down 0 "u ''Manali''" "[]"] up
  show ?thesis
    by (simp add: u_def)
qed

text \<open>
  C6, at a destination that holds curly braces.  With the destination \<open>{{x}}\<close>, no
  credential and no geocoding match, the weather string is
  "Weather info for \<open>{{x}}\<close> not found." and the f-string holds it as it is; but
  \<open>format_messages\<close> turns every \<open>{{\<close> into \<open>{\<close>, so the instruction sent to the model
  does not contain the weather string.  With the destination \<open>{x}\<close> the brace opens a
  replacement field without a value, and no instruction is produced at all.
\<close>

theorem formatted_prompt_braces_not_verbatim:
  "(\<exists>msgs instr.
      formatted_prompt 2 (u ''{{x}}'') (u ''Medium'') [u ''Nature'', u ''Adventure'']
          (globe @ u '' Weather info for {{x}} not found.'') (mock_flights lib0 (u ''{{x}}''))
        = Inr msgs
      \<and> map_of msgs (u ''human'') = Some instr
      \<and> \<not> sublist (globe @ u '' Weather info for {{x}} not found.'') instr)
   \<and> formatted_prompt 2 (u ''{x}'') (u ''Medium'') [u ''Nature'', u ''Adventure'']
          (globe @ u '' Weather info for {x} not found.'') (mock_flights lib0 (u ''{x}''))
        = Inl TemplateError"
proof -
  have b: "\<exists>msgs instr.
      formatted_prompt 2 (u ''{{x}}'') (u ''Medium'') [u ''Nature'', u ''Adventure'']
          (globe @ u '' Weather info for {{x}} not found.'') (mock_flights lib0 (u ''{{x}}''))
        = Inr msgs
      \<and> map_of msgs (u ''human'') = Some instr
      \<and> \<not> sublist (globe @ u '' Weather info for {{x}} not found.'') instr"
    by (simp add: formatted_prompt_def prompt_def human_text_def interests_text_def
          mock_flights_def upper_def is_ascii_def ascii_upper_def lib0_def str_int_def u_def
          nl_def globe_def plane_def arrow_def rupee_def is_brace_def sublist_code)
  have a: "formatted_prompt 2 (u ''{x}'') (u ''Medium'') [u ''Nature'', u ''Adventure'']
          (globe @ u '' Weather info for {x} not found.'') (mock_flights lib0 (u ''{x}''))
        = Inl TemplateError"
    by (simp add: formatted_prompt_def prompt_def human_text_def interests_text_def
          mock_flights_def upper_def is_ascii_def ascii_upper_def lib0_def str_int_def u_def
          nl_def globe_def plane_def arrow_def rupee_def is_brace_def)
  from b a show ?thesis by blast
qed

text \<open>
  C7.  A text of 60 lines (59 line feeds) gives a document of exactly 2 pages: the cursor
  starts at 792 - 50 = 742 and goes down by 20 a line; after the 35th line it is 42, below
  50, so the page is closed; the other 25 lines are on the second page, which \<open>save\<close>
  closes.
\<close>

theorem create_pdf_sixty_lines_two_pages:
  "length (split_nl text) = 60 \<Longrightarrow> length (create_pdf text) = 2"
  by (simp add: create_pdf_pages)

theorem create_pdf_sixty_lines_two_pages_witness:
  "length (split_nl sixty_lines) = 60 \<and> length (create_pdf sixty_lines) = 2"
  using create_pdf_sixty_lines_two_pages[OF length_split_sixty_lines] length_split_sixty_lines
  by simp

text \<open>
  C8.  A call with a credential issues exactly one request, and its query parameter
  \<open>destinationLocationCode\<close> is \<open>"GOI"\<close> when the destination equals \<open>"goa"\<close>
  case-insensitively and \<open>"KUU"\<close> for every other destination.
\<close>

theorem destination_code_goi_or_kuu:
  assumes "k \<noteq> []"
  shows "\<exists>req. snd (get_flight_options lib http today destination (Some k) log) = log @ [req]
     \<and> map_of (params req) (u ''destinationLocationCode'')
         = Some (PStr (if equals_ignoring_case lib destination (u ''goa'')
                       then u ''GOI'' else u ''KUU''))"
proof -
  have "map_of (params (flight_request lib today destination (Some k)))
          (u ''destinationLocationCode'')
        = Some (PStr (if equals_ignoring_case lib destination (u ''goa'')
                      then u ''GOI'' else u ''KUU''))"
    by (simp add: flight_request_def equals_ignoring_case_def lower_goa) (simp add: u_def)
  with flight_request_sent[OF assms] show ?thesis by blast
qed

theorem destination_code_goi_or_kuu_witness:
  "u ''key'' \<noteq> []
   \<and> (\<exists>req. snd (get_flight_options lib0 net_down 0 (u ''GoA'') (Some (u ''key'')) []) = [] @ [req]
          \<and> map_of (params req) (u ''destinationLocationCode'') = Some (PStr (u ''GOI'')))
   \<and> (\<exists>req. snd (get_flight_options lib0 net_down 0 (u ''manali'') (Some (u ''key'')) []) = [] @ [req]
          \<and> map_of (params req) (u ''destinationLocationCode'') = Some (PStr (u ''KUU'')))"
proof -
  have k: "u ''key'' \<noteq> []"
    by (simp add: u_def)
  have g: "equals_ignoring_case lib0 (u ''GoA'') (u ''goa'')"
    by (simp add: equals_ignoring_case_def lower_def is_ascii_def ascii_lower_def u_def)
  have m: "\<not> equals_ignoring_case lib0 (u ''manali'') (u ''goa'')"
    by (simp add: equals_ignoring_case_def lower_def is_ascii_def ascii_lower_def u_def)
  from destination_code_goi_or_kuu[OF k, of lib0 net_down 0 "u ''GoA''" "[]"]
       destination_code_goi_or_kuu[OF k, of lib0 net_down 0 "u ''manali''" "[]"] k g m
  show ?thesis by simp
qed

text \<open>
  C9.  A call with the empty string as credential is the same as a call with no
  credential: it returns the two mock strings "DEL \<rightarrow> D : 4,500 (Mock)" and
  "BOM \<rightarrow> D : 5,200 (Mock)", with \<open>D\<close> the destination in upper case, and the log of
  requests is unchanged, so no request is issued.
\<close>

theorem empty_credential_is_no_credential:
  "get_flight_options lib http today destination (Some []) log
     = get_flight_options lib http today destination None log
   \<and> get_flight_options lib http today destination (Some []) log
     = (Inr [plane @ u '' DEL '' @ arrow @ u '' '' @ upper lib destination @ u '' : '' @ rupee
               @ u ''4,500 (Mock)'',
             plane @ u '' BOM '' @ arrow @ u '' '' @ upper lib destination @ u '' : '' @ rupee
               @ u ''5,200 (Mock)''],
        log)"
  by (simp add: get_flight_options_def get_flight_options_try_def mock_flights_def)

theorem empty_credential_is_no_credential_witness:
  "get_flight_options lib0 net_down 0 (u ''Goa'') (Some []) []
     = get_flight_options lib0 net_down 0 (u ''Goa'') None []
   \<and> get_flight_options lib0 net_down 0 (u ''Goa'') (Some []) []
     = (Inr [plane @ u '' DEL '' @ arrow @ u '' GOA : '' @ rupee @ u ''4,500 (Mock)'',
             plane @ u '' BOM '' @ arrow @ u '' GOA : '' @ rupee @ u ''5,200 (Mock)''],
        [])"
proof -
  have up: "upper lib0 (u ''Goa'') = u ''GOA''"
    by (simp add: upper_def is_ascii_def ascii_upper_def u_def)
  note t = empty_credential_is_no_credential[of lib0 net_down 0 "u ''Goa''" "[]"]
  from t have e: "get_flight_options lib0 net_down 0 (u ''Goa'') (Some []) []
                    = get_flight_options lib0 net_down 0 (u ''Goa'') None []"
    by (rule conjunct1)
  from conjunct2[OF t] up
  have r: "get_flight_options lib0 net_down 0 (u ''Goa'') (Some []) []
     = (Inr [plane @ u '' DEL '' @ arrow @ u '' GOA : '' @ rupee @ u ''4,500 (Mock)'',
             plane @ u '' BOM '' @ arrow @ u '' GOA : '' @ rupee @ u ''5,200 (Mock)''],
        [])"
    by (simp add: u_def)
  from e r show ?thesis
    by (rule conjI)
qed

text \<open>
  C10.  When a call with a credential receives a JSON object whose \<open>"data"\<close> is an array of
  \<open>n\<close> offers, each with the fields the code reads, it returns exactly \<open>n\<close> strings: the
  line of each offer, in the order of the array.  Nothing is cut off by the code.
\<close>

theorem one_line_per_offer:
  assumes "k \<noteq> []"
      and "http (log @ [flight_request lib today destination (Some k)]) = Inr (JObj kvs)"
      and "map_of kvs (u ''data'') = Some (JArr offers)"
      and "\<forall>f \<in> set offers. \<exists>l. flight_line lib f = Inr l"
  shows "\<exists>lines. fst (get_flight_options lib http today destination (Some k) log) = Inr lines
           \<and> length lines = length offers
           \<and> map (flight_line lib) offers = map Inr lines"
proof -
  from all_lines[OF assms(4)] obtain lines where
    l: "map (flight_line lib) offers = map Inr lines"
    by blast
  then have n: "length lines = length offers"
    by (metis length_map)
  from flights_loop_lines[OF l, of "[]"] assms(1,2,3) py_contains_obj[OF assms(3)]
  have "fst (get_flight_options lib http today destination (Some k) log) = Inr lines"
    by (simp add: get_flight_options_def get_flight_options_try_def requests_get_json_def
                  bindE_def)
  with l n show ?thesis by blast
qed

theorem one_line_per_offer_witness:
  "u ''key'' \<noteq> []
   \<and> map_of [(u ''data'', JArr [offer_del_goi, offer_del_goi])] (u ''data'')
       = Some (JArr [offer_del_goi, offer_del_goi])
   \<and> fst (get_flight_options lib0
             (net_always (JObj [(u ''data'', JArr [offer_del_goi, offer_del_goi])]))
             0 (u ''Goa'') (Some (u ''key'')) [])
       = Inr [plane @ u '' DEL '' @ arrow @ u '' GOI : '' @ rupee @ u ''4500.00'',
              plane @ u '' DEL '' @ arrow @ u '' GOI : '' @ rupee @ u ''4500.00'']"
proof -
  have k: "u ''key'' \<noteq> []"
    by (simp add: u_def)
  have h: "net_always (JObj [(u ''data'', JArr [offer_del_goi, offer_del_goi])])
             ([] @ [flight_request lib0 0 (u ''Goa'') (Some (u ''key''))])
           = Inr (JObj [(u ''data'', JArr [offer_del_goi, offer_del_goi])])"
    by (simp add: net_always_def)
  have d: "map_of [(u ''data'', JArr [offer_del_goi, offer_del_goi])] (u ''data'')
           = Some (JArr [offer_del_goi, offer_del_goi])"
    by simp
  have w: "\<forall>f \<in> set [offer_del_goi, offer_del_goi]. \<exists>l. flight_line lib0 f = Inr l"
    by (simp add: flight_line_offer_del_goi)
  from one_line_per_offer
         [where http = "net_always (JObj [(u ''data'', JArr [offer_del_goi, offer_del_goi])])"
            and log = "[]" and lib = lib0 and today = 0 and destination = "u ''Goa''",
          OF k h d w]
  obtain lines where
    r: "fst (get_flight_options lib0
               (net_always (JObj [(u ''data'', JArr [offer_del_goi, offer_del_goi])]))
               0 (u ''Goa'') (Some (u ''key'')) []) = Inr lines"
    and m: "map (flight_line lib0) [offer_del_goi, offer_del_goi] = map Inr lines"
    by blast
  from m have "lines = [plane @ u '' DEL '' @ arrow @ u '' GOI : '' @ rupee @ u ''4500.00'',
                        plane @ u '' DEL '' @ arrow @ u '' GOI : '' @ rupee @ u ''4500.00'']"
    by (auto simp: flight_line_offer_del_goi)
  with r k d show ?thesis
    by simp
qed

end
